theory Spec2Isabelle
  imports
    Complex_Main
    "HOL-Library.Multiset"
    "HOL-Library.Char_ord"
    "HOL-Library.List_Lexorder"
begin

section \<open>Shallow embedding of \<open>lib_hdfs/into_record.py\<close>\<close>

text \<open>
  The Python exceptions that the modelled code can raise by itself.
  \<^item> \<open>ValueError\<close>: \<open>range()\<close> with step 0, \<open>max()\<close> of an empty sequence, the invalid
    reader mode, and the explicit \<open>raise ValueError\<close> of the main block;
  \<^item> \<open>ZeroDivisionError\<close>: \<open>i % 0\<close>;
  \<^item> \<open>UnboundLocalError\<close>: use of the writer \<open>f\<close> before its first assignment;
  \<^item> \<open>ResizeError\<close>: an exception of \<open>cv2.resize\<close>, which is outside the \<open>try\<close>.
\<close>

datatype py_error = ValueError | ZeroDivisionError | UnboundLocalError | ResizeError

subsection \<open>Work assignment (main block, lines 336--342)\<close>

text \<open>
  \<^verbatim>\<open>
  fnames = []
  for i, f in enumerate(sorted(glob.glob(FLAGS.source_glob))):
      if i % size == rank:
          fnames.append(os.path.abspath(f))
  if not fnames:
      raise ValueError("source_glob does not match any files")
  \<close>
  \<open>round_robin\<close> is the loop over \<open>enumerate\<close>, started at index \<open>i\<close>; the operating
  system's \<open>os.path.abspath\<close> is the parameter \<open>abspath\<close>; \<open>matched\<close> is what the glob
  returned. Strings are ordered as Python orders them, lexicographically by character code.
\<close>

fun round_robin :: "(string \<Rightarrow> string) \<Rightarrow> nat \<Rightarrow> nat \<Rightarrow> nat \<Rightarrow> string list \<Rightarrow> string list" where
  "round_robin abspath sz rank i [] = []"
| "round_robin abspath sz rank i (f # fs) =
     (if i mod sz = rank then abspath f # round_robin abspath sz rank (Suc i) fs
      else round_robin abspath sz rank (Suc i) fs)"

definition assign_files :: "(string \<Rightarrow> string) \<Rightarrow> nat \<Rightarrow> nat \<Rightarrow> string list \<Rightarrow> string list" where
  "assign_files abspath sz rank matched = round_robin abspath sz rank 0 (sort matched)"

definition main_fnames :: "(string \<Rightarrow> string) \<Rightarrow> nat \<Rightarrow> nat \<Rightarrow> string list \<Rightarrow> py_error + string list" where
  "main_fnames abspath sz rank matched =
     (if sz = 0 \<and> matched \<noteq> [] then Inl ZeroDivisionError
      else let fnames = assign_files abspath sz rank matched
           in if fnames = [] then Inl ValueError else Inr fnames)"

subsection \<open>Arrays\<close>

text \<open>
  A three-dimensional numpy array of shape \<open>(dim_x, dim_y, dim_c)\<close>: height, width and
  channels, as \<open>swath.shape\<close> is read in \<open>gen_patches\<close>. \<open>elem a i j c\<close> is \<open>a[i, j, c]\<close>
  and is only ever read inside the shape.
\<close>

record 'a ndarray3 =
  dim_x :: nat
  dim_y :: nat
  dim_c :: nat
  elem :: "nat \<Rightarrow> nat \<Rightarrow> nat \<Rightarrow> 'a"

text \<open>
  A bound of a Python slice over an axis of length \<open>n\<close>: a negative bound counts from the
  end, and every bound is clipped to the axis.
\<close>

definition slice_bound :: "nat \<Rightarrow> int \<Rightarrow> nat" where
  "slice_bound n i = (if i < 0 then nat (max 0 (int n + i)) else min (nat i) n)"

text \<open>\<^verbatim>\<open>swath[x : x + shape_x, y : y + shape_y]\<close>\<close>

definition slice_patch :: "'a ndarray3 \<Rightarrow> int \<Rightarrow> int \<Rightarrow> int \<Rightarrow> int \<Rightarrow> 'a ndarray3" where
  "slice_patch swath x y shape_x shape_y =
     (let x0 = slice_bound (dim_x swath) x;
          x1 = slice_bound (dim_x swath) (x + shape_x);
          y0 = slice_bound (dim_y swath) y;
          y1 = slice_bound (dim_y swath) (y + shape_y)
      in \<lparr>dim_x = x1 - x0, dim_y = y1 - y0, dim_c = dim_c swath,
          elem = (\<lambda>i j c. elem swath (x0 + i) (y0 + j) c)\<rparr>)"

text \<open>\<^verbatim>\<open>a[:, :, c]\<close>, flattened in row-major order.\<close>

definition chan_vals :: "'a ndarray3 \<Rightarrow> nat \<Rightarrow> 'a list" where
  "chan_vals a c = concat (map (\<lambda>i. map (\<lambda>j. elem a i j c) [0..<dim_y a]) [0..<dim_x a])"

definition array_vals :: "'a ndarray3 \<Rightarrow> 'a list" where
  "array_vals a = concat (map (chan_vals a) [0..<dim_c a])"

subsection \<open>Reading swaths (\<open>gen_swaths\<close>, lines 35--87)\<close>

text \<open>
  \<^verbatim>\<open>
  if mode == "mod09_tif":   read = lambda tif_file: gdOpen(tif_file)
  elif mode == "mod02_1km": read = lambda hdf_file: read_hdf(hdf_file, names_1km)
  else: raise ValueError("Invalid reader mode", mode)
  \<close>
  The two readers are external (gdal, pyhdf). Each is a parameter that stands for the
  whole guarded expression \<open>np.rollaxis(read(t), 0, 3)\<close>: it gives the swath, or the
  exception (of any type \<open>'e\<close>) raised inside the \<open>try\<close>.
\<close>

definition select_reader ::
  "(string \<Rightarrow> 'e + 'a ndarray3) \<Rightarrow> (string \<Rightarrow> 'e + 'a ndarray3) \<Rightarrow> string
     \<Rightarrow> py_error + (string \<Rightarrow> 'e + 'a ndarray3)" where
  "select_reader read_tif read_hdf mode =
     (if mode = ''mod09_tif'' then Inr read_tif
      else if mode = ''mod02_1km'' then Inr read_hdf
      else Inl ValueError)"

text \<open>
  A generator is modelled by what it yields before it ends, and by the exception that
  ended it, if one did.
  \<^verbatim>\<open>
  for t in fnames:
      try:
          swath = np.rollaxis(read(t), 0, 3)
      except Exception as e:
          print(rank, "Could not read", t, "because", e)
          continue
      if resize is not None:
          swath = cv2.resize(swath, dsize=None, fx=resize, fy=resize, ...)
      yield t, swath
  \<close>
  \<open>cv2.resize\<close> is external and outside the \<open>try\<close>: the parameter \<open>cv2_resize\<close> gives
  the resized swath or fails, and its failure ends the generator. The third component of
  the result is the log: the files that \<open>print\<close> reported as "Could not read", in order.
\<close>

fun swath_loop ::
  "(string \<Rightarrow> 'e + 'a ndarray3) \<Rightarrow> ('r \<Rightarrow> 'a ndarray3 \<Rightarrow> py_error + 'a ndarray3) \<Rightarrow> 'r option
     \<Rightarrow> string list \<Rightarrow> (string \<times> 'a ndarray3) list \<times> py_error option \<times> string list" where
  "swath_loop read cv2_resize resize [] = ([], None, [])"
| "swath_loop read cv2_resize resize (t # ts) =
     (case read t of
        Inl e \<Rightarrow>
          (case swath_loop read cv2_resize resize ts of
             (ys, err, logged) \<Rightarrow> (ys, err, t # logged))
      | Inr swath \<Rightarrow>
          (case (case resize of None \<Rightarrow> Inr swath | Some r \<Rightarrow> cv2_resize r swath) of
             Inl err \<Rightarrow> ([], Some err, [])
           | Inr swath' \<Rightarrow>
               (case swath_loop read cv2_resize resize ts of
                  (ys, err, logged) \<Rightarrow> ((t, swath') # ys, err, logged))))"

definition gen_swaths ::
  "(string \<Rightarrow> 'e + 'a ndarray3) \<Rightarrow> (string \<Rightarrow> 'e + 'a ndarray3)
     \<Rightarrow> ('r \<Rightarrow> 'a ndarray3 \<Rightarrow> py_error + 'a ndarray3)
     \<Rightarrow> string list \<Rightarrow> string \<Rightarrow> 'r option
     \<Rightarrow> (string \<times> 'a ndarray3) list \<times> py_error option \<times> string list" where
  "gen_swaths read_tif read_hdf cv2_resize fnames mode resize =
     (case select_reader read_tif read_hdf mode of
        Inl err \<Rightarrow> ([], Some err, [])
      | Inr read \<Rightarrow> swath_loop read cv2_resize resize fnames)"

subsection \<open>Candidate coordinates (\<open>gen_patches\<close>, lines 124--128)\<close>

text \<open>
  \<open>range(0, stop, step)\<close>: step 0 raises, a negative step gives nothing (the stop is a
  dimension, never negative), and a positive step gives the multiples of the step below
  the stop; their number is computed as CPython computes the length of a range.
\<close>

definition py_range :: "nat \<Rightarrow> int \<Rightarrow> py_error + int list" where
  "py_range stop step =
     (if step = 0 then Inl ValueError
      else if step < 0 then Inr []
      else Inr (map (\<lambda>k. int k * step) [0..<nat ((int stop + step - 1) div step)]))"

text \<open>
  \<^verbatim>\<open>
  coords = []
  for x in range(0, max_x, stride_x):
      for y in range(0, max_y, stride_y):
          if x + shape_x < max_x and y + shape_y < max_y:
              coords.append((x, y))
  \<close>
  The inner \<open>range\<close> is built once for every \<open>x\<close>, so a zero \<open>stride_y\<close> raises only when
  the outer loop runs at all.
\<close>

fun coords_loop ::
  "nat \<Rightarrow> nat \<Rightarrow> int \<Rightarrow> int \<Rightarrow> int \<Rightarrow> int list \<Rightarrow> py_error + (int \<times> int) list" where
  "coords_loop max_x max_y shape_x shape_y stride_y [] = Inr []"
| "coords_loop max_x max_y shape_x shape_y stride_y (x # xs) =
     (case py_range max_y stride_y of
        Inl err \<Rightarrow> Inl err
      | Inr ys \<Rightarrow>
          (case coords_loop max_x max_y shape_x shape_y stride_y xs of
             Inl err \<Rightarrow> Inl err
           | Inr rest \<Rightarrow>
               Inr (map (\<lambda>y. (x, y))
                      (filter (\<lambda>y. x + shape_x < int max_x \<and> y + shape_y < int max_y) ys)
                    @ rest)))"

definition gen_coords ::
  "nat \<Rightarrow> nat \<Rightarrow> int \<times> int \<Rightarrow> int \<times> int \<Rightarrow> py_error + (int \<times> int) list" where
  "gen_coords max_x max_y shape strides =
     (case (shape, strides) of
        ((shape_x, shape_y), (stride_x, stride_y)) \<Rightarrow>
          (case py_range max_x stride_x of
             Inl err \<Rightarrow> Inl err
           | Inr xs \<Rightarrow> coords_loop max_x max_y shape_x shape_y stride_y xs))"

subsection \<open>The cloud filter (\<open>gen_patches\<close>, lines 135--138)\<close>

text \<open>
  \<open>np.unique(v, return_counts=True)[1]\<close>: the number of occurrences of every distinct
  value of \<open>v\<close>. numpy lists them in the order of the sorted values; the model lists them in
  the order of first occurrence, which the maximum does not see. Values are compared with
  HOL's equality.
\<close>

definition unique_counts :: "'a list \<Rightarrow> nat list" where
  "unique_counts vs = map (count_list vs) (remdups vs)"

text \<open>Python's \<open>max\<close> of a sequence, which raises on the empty one.\<close>

fun py_max :: "nat list \<Rightarrow> py_error + nat" where
  "py_max [] = Inl ValueError"
| "py_max (n # ns) = Inr (fold max ns n)"

text \<open>\<^verbatim>\<open>max_uniq = lambda c: max(np.unique(patch[:, :, c], return_counts=True)[1])\<close>\<close>

definition max_uniq :: "'a ndarray3 \<Rightarrow> nat \<Rightarrow> py_error + nat" where
  "max_uniq patch c = py_max (unique_counts (chan_vals patch c))"

text \<open>
  \<^verbatim>\<open>any(max_uniq(c) < threshold for c in range(patch.shape[-1]))\<close>:
  \<open>any\<close> stops at the first channel under the threshold, and an exception of \<open>max_uniq\<close>
  before that leaves it.
\<close>

fun any_under :: "rat \<Rightarrow> 'a ndarray3 \<Rightarrow> nat list \<Rightarrow> py_error + bool" where
  "any_under threshold patch [] = Inr False"
| "any_under threshold patch (c # cs) =
     (case max_uniq patch c of
        Inl err \<Rightarrow> Inl err
      | Inr m \<Rightarrow> if of_nat m < threshold then Inr True else any_under threshold patch cs)"

text \<open>
  \<^verbatim>\<open>
  threshold = shape_x * shape_y * 0.5
  has_clouds = any(max_uniq(c) < threshold for c in range(patch.shape[-1]))
  \<close>
  The threshold is a float; half of an integer is exact in binary floating point (below
  \<open>2^53\<close>), so it is modelled by the rational number.
\<close>

definition has_clouds :: "int \<Rightarrow> int \<Rightarrow> 'a ndarray3 \<Rightarrow> py_error + bool" where
  "has_clouds shape_x shape_y patch =
     (let threshold = of_int (shape_x * shape_y) * (1 / 2)
      in any_under threshold patch [0..<dim_c patch])"

subsection \<open>Normalisation and the patch generator (\<open>gen_patches\<close>, lines 101--141)\<close>

text \<open>
  The floating-point operations of numpy are parameters: \<open>'a\<close> is the sample type of the
  swath and \<open>'f\<close> stands for \<open>np.float32\<close>.
  \<^item> \<open>fmean vs\<close>, \<open>fstd vs\<close>: \<open>.mean()\<close> and \<open>.std()\<close> of the samples of one channel, cast
    to \<open>float32\<close>;
  \<^item> \<open>astype v\<close>: the cast of a sample; \<open>fsub\<close>, \<open>fdiv\<close>: subtraction and division;
  \<^item> \<open>isnan\<close>: \<open>np.isnan\<close>.
\<close>

record ('a, 'f) float_ops =
  fmean :: "'a list \<Rightarrow> 'f"
  fstd :: "'a list \<Rightarrow> 'f"
  astype :: "'a \<Rightarrow> 'f"
  fsub :: "'f \<Rightarrow> 'f \<Rightarrow> 'f"
  fdiv :: "'f \<Rightarrow> 'f \<Rightarrow> 'f"
  isnan :: "'f \<Rightarrow> bool"

text \<open>\<^verbatim>\<open>swath.mean(axis=(0, 1)).astype(np.float32)\<close> and the same for \<open>std\<close>: one entry per channel.\<close>

definition swath_mean :: "('a, 'f) float_ops \<Rightarrow> 'a ndarray3 \<Rightarrow> 'f list" where
  "swath_mean ops swath = map (\<lambda>c. fmean ops (chan_vals swath c)) [0..<dim_c swath]"

definition swath_std :: "('a, 'f) float_ops \<Rightarrow> 'a ndarray3 \<Rightarrow> 'f list" where
  "swath_std ops swath = map (\<lambda>c. fstd ops (chan_vals swath c)) [0..<dim_c swath]"

text \<open>\<^verbatim>\<open>(patch.astype(np.float32) - mean) / std\<close>, broadcast over the channel axis.\<close>

definition normalize :: "('a, 'f) float_ops \<Rightarrow> 'f list \<Rightarrow> 'f list \<Rightarrow> 'a ndarray3 \<Rightarrow> 'f ndarray3" where
  "normalize ops mean std patch =
     \<lparr>dim_x = dim_x patch, dim_y = dim_y patch, dim_c = dim_c patch,
      elem = (\<lambda>i j c. fdiv ops (fsub ops (astype ops (elem patch i j c)) (mean ! c)) (std ! c))\<rparr>"

text \<open>\<^verbatim>\<open>np.isnan(patch).any()\<close>\<close>

definition any_nan :: "('a, 'f) float_ops \<Rightarrow> 'f ndarray3 \<Rightarrow> bool" where
  "any_nan ops patch = list_ex (isnan ops) (array_vals patch)"

text \<open>
  The body of the loop over the shuffled coordinates:
  \<^verbatim>\<open>
  patch = swath[x : x + shape_x, y : y + shape_y]
  threshold = shape_x * shape_y * 0.5
  ...
  if has_clouds:
      patch = (patch.astype(np.float32) - mean) / std
      if not np.isnan(patch).any():
          yield fname, (x, y), patch
  \<close>
  The result is what the iteration yields (\<open>Some\<close>) or that it yields nothing (\<open>None\<close>).
\<close>

definition patch_step ::
  "('a, 'f) float_ops \<Rightarrow> string \<Rightarrow> 'a ndarray3 \<Rightarrow> 'f list \<Rightarrow> 'f list \<Rightarrow> int \<Rightarrow> int \<Rightarrow> int \<times> int
     \<Rightarrow> py_error + (string \<times> (int \<times> int) \<times> 'f ndarray3) option" where
  "patch_step ops fname swath mean std shape_x shape_y xy =
     (case xy of (x, y) \<Rightarrow>
        (let patch = slice_patch swath x y shape_x shape_y
         in case has_clouds shape_x shape_y patch of
              Inl err \<Rightarrow> Inl err
            | Inr clouds \<Rightarrow>
                if clouds
                then (let patch' = normalize ops mean std patch
                      in if \<not> any_nan ops patch' then Inr (Some (fname, (x, y), patch'))
                         else Inr None)
                else Inr None))"

fun patch_loop ::
  "('c \<Rightarrow> py_error + 'y option) \<Rightarrow> 'c list \<Rightarrow> 'y list \<times> py_error option" where
  "patch_loop step [] = ([], None)"
| "patch_loop step (xy # rest) =
     (case step xy of
        Inl err \<Rightarrow> ([], Some err)
      | Inr r \<Rightarrow>
          (case patch_loop step rest of
             (ys, err) \<Rightarrow> ((case r of None \<Rightarrow> ys | Some p \<Rightarrow> p # ys), err)))"

text \<open>
  One iteration of \<open>for fname, swath in swaths\<close>. \<open>np.random.shuffle(coords)\<close> is the
  parameter \<open>shuffle\<close>, the permutation that this call of the random generator applies.
\<close>

definition swath_patches ::
  "('a, 'f) float_ops \<Rightarrow> ((int \<times> int) list \<Rightarrow> (int \<times> int) list) \<Rightarrow> int \<times> int \<Rightarrow> int \<times> int
     \<Rightarrow> string \<times> 'a ndarray3
     \<Rightarrow> (string \<times> (int \<times> int) \<times> 'f ndarray3) list \<times> py_error option" where
  "swath_patches ops shuffle shape strides fs =
     (case fs of (fname, swath) \<Rightarrow>
        (let mean = swath_mean ops swath;
             std = swath_std ops swath
         in case gen_coords (dim_x swath) (dim_y swath) shape strides of
              Inl err \<Rightarrow> ([], Some err)
            | Inr coords \<Rightarrow>
                patch_loop (patch_step ops fname swath mean std (fst shape) (snd shape))
                  (shuffle coords)))"

text \<open>
  The loop over the swaths; \<open>shuffle_at k\<close> is the permutation of the \<open>k\<close>-th call of
  \<open>np.random.shuffle\<close>.
\<close>

fun patches_from ::
  "('a, 'f) float_ops \<Rightarrow> (nat \<Rightarrow> (int \<times> int) list \<Rightarrow> (int \<times> int) list) \<Rightarrow> int \<times> int \<Rightarrow> int \<times> int
     \<Rightarrow> nat \<Rightarrow> (string \<times> 'a ndarray3) list
     \<Rightarrow> (string \<times> (int \<times> int) \<times> 'f ndarray3) list \<times> py_error option" where
  "patches_from ops shuffle_at shape strides k [] = ([], None)"
| "patches_from ops shuffle_at shape strides k (fs # rest) =
     (case swath_patches ops (shuffle_at k) shape strides fs of
        (ys, Some err) \<Rightarrow> (ys, Some err)
      | (ys, None) \<Rightarrow>
          (case patches_from ops shuffle_at shape strides (Suc k) rest of
             (zs, err) \<Rightarrow> (ys @ zs, err)))"

text \<open>
  \<open>gen_patches\<close> consumes the generator of swaths: an exception that ended that generator
  ends this one, after the patches of the swaths it had yielded.
\<close>

definition gen_patches ::
  "('a, 'f) float_ops \<Rightarrow> (nat \<Rightarrow> (int \<times> int) list \<Rightarrow> (int \<times> int) list)
     \<Rightarrow> (string \<times> 'a ndarray3) list \<times> py_error option \<Rightarrow> int \<times> int \<Rightarrow> int \<times> int
     \<Rightarrow> (string \<times> (int \<times> int) \<times> 'f ndarray3) list \<times> py_error option" where
  "gen_patches ops shuffle_at swaths shape strides =
     (case swaths of (sws, upstream) \<Rightarrow>
        (case patches_from ops shuffle_at shape strides 0 sws of
           (ys, Some err) \<Rightarrow> (ys, Some err)
         | (ys, None) \<Rightarrow> (ys, upstream)))"

subsection \<open>Writing shards (\<open>write_patches\<close>, lines 252--272)\<close>

text \<open>\<open>str\<close> of an integer, as \<open>"{}".format\<close> prints it.\<close>

definition digit_char :: "nat \<Rightarrow> char" where
  "digit_char d = ''0123456789'' ! d"

function str_nat :: "nat \<Rightarrow> string" where
  "str_nat n = (if n < 10 then [digit_char n] else str_nat (n div 10) @ [digit_char (n mod 10)])"
  by pat_completeness auto
termination
  by (relation "measure id") auto

declare str_nat.simps [simp del]

definition str_int :: "int \<Rightarrow> string" where
  "str_int i = (if i < 0 then CHR ''-'' # str_nat (nat (- i)) else str_nat (nat i))"

text \<open>\<^verbatim>\<open>"{}-{}.tfrecord".format(rank, i // patches_per_record)\<close>\<close>

definition record_name :: "nat \<Rightarrow> int \<Rightarrow> string" where
  "record_name rank k = str_int (int rank) @ ''-'' @ str_int k @ ''.tfrecord''"

text \<open>\<open>os.path.join(out_dir, rec)\<close> for a relative \<open>rec\<close> (a record name never starts with a slash).\<close>

definition path_join :: "string \<Rightarrow> string \<Rightarrow> string" where
  "path_join out_dir rec =
     (if out_dir = [] then rec
      else if last out_dir = CHR ''/'' then out_dir @ rec
      else out_dir @ ''/'' @ rec)"

text \<open>
  \<^verbatim>\<open>
  for i, patch in enumerate(patches):
      if i % patches_per_record == 0:
          rec = "{}-{}.tfrecord".format(rank, i // patches_per_record)
          f = tf.python_io.TFRecordWriter(os.path.join(out_dir, rec))
      write_feature(f, *patch)
  \<close>
  The state is the list of the writers opened so far, oldest first, each with its path
  and the records written to it; \<open>f\<close> is the last of them, and is unbound while the list
  is empty. A record is the patch that \<open>write_feature\<close> serialises.
\<close>

fun write_loop ::
  "nat \<Rightarrow> string \<Rightarrow> int \<Rightarrow> nat \<Rightarrow> (string \<times> 'p list) list \<Rightarrow> 'p list
     \<Rightarrow> py_error + (string \<times> 'p list) list" where
  "write_loop rank out_dir patches_per_record i opened [] = Inr opened"
| "write_loop rank out_dir patches_per_record i opened (patch # rest) =
     (if patches_per_record = 0 then Inl ZeroDivisionError
      else
        (let opened' =
               (if int i mod patches_per_record = 0
                then opened @ [(path_join out_dir (record_name rank (int i div patches_per_record)), [])]
                else opened)
         in if opened' = [] then Inl UnboundLocalError
            else write_loop rank out_dir patches_per_record (Suc i)
                   (butlast opened' @ [(fst (last opened'), snd (last opened') @ [patch])]) rest))"

definition write_patches ::
  "nat \<Rightarrow> 'p list \<Rightarrow> string \<Rightarrow> int \<Rightarrow> py_error + (string \<times> 'p list) list" where
  "write_patches rank patches out_dir patches_per_record =
     write_loop rank out_dir patches_per_record 0 [] patches"

subsection \<open>Notions of the specification\<close>

text \<open>
  The count of the most frequent value of a channel, as the specification words it
  (for a channel with at least one pixel).
\<close>

definition most_frequent_count :: "'a list \<Rightarrow> nat" where
  "most_frequent_count vs = Max (count_list vs ` set vs)"

text \<open>
  The shards that the specification expects for a stream of patches and a capacity \<open>K\<close>:
  shard \<open>k\<close> is named from the rank and \<open>k\<close> and holds the patches \<open>k * K, ..., k * K + K - 1\<close>
  of the stream; there are \<open>ceil (N / K)\<close> of them.
\<close>

definition spec_shards :: "nat \<Rightarrow> string \<Rightarrow> nat \<Rightarrow> 'p list \<Rightarrow> (string \<times> 'p list) list" where
  "spec_shards rank out_dir K ps =
     map (\<lambda>k. (path_join out_dir (record_name rank (int k)), take K (drop (k * K) ps)))
       [0..<(length ps + K - 1) div K]"

text \<open>
  The files whose read succeeds, each with its swath after the optional resize, in the
  order of the assignment: what the specification expects \<open>gen_swaths\<close> to produce.
\<close>

definition readable_swaths ::
  "(string \<Rightarrow> 'e + 'a ndarray3) \<Rightarrow> ('r \<Rightarrow> 'a ndarray3 \<Rightarrow> py_error + 'a ndarray3) \<Rightarrow> 'r option
     \<Rightarrow> string list \<Rightarrow> (string \<times> 'a ndarray3) list" where
  "readable_swaths read cv2_resize resize fnames =
     List.map_filter
       (\<lambda>t. case read t of
              Inl e \<Rightarrow> None
            | Inr swath \<Rightarrow>
                (case (case resize of None \<Rightarrow> Inr swath | Some r \<Rightarrow> cv2_resize r swath) of
                   Inl err \<Rightarrow> None
                 | Inr swath' \<Rightarrow> Some (t, swath')))
       fnames"

subsection \<open>An instance of the floating-point operations\<close>

text \<open>
  The operations of numpy computed exactly: real numbers without rounding or overflow,
  with the IEEE special values that division by zero produces (the sign of a zero is not
  kept: a zero divisor counts as positive). Samples are integers. This instance is used to
  run the model on concrete swaths.
\<close>

datatype fval = Fin real | Inf bool | NaN

fun fval_sub :: "fval \<Rightarrow> fval \<Rightarrow> fval" where
  "fval_sub (Fin a) (Fin b) = Fin (a - b)"
| "fval_sub (Fin a) (Inf s) = Inf (\<not> s)"
| "fval_sub (Inf s) (Fin b) = Inf s"
| "fval_sub (Inf s) (Inf t) = (if s = t then NaN else Inf s)"
| "fval_sub NaN b = NaN"
| "fval_sub a NaN = NaN"

fun fval_div :: "fval \<Rightarrow> fval \<Rightarrow> fval" where
  "fval_div (Fin a) (Fin b) =
     (if b = 0 then (if a = 0 then NaN else Inf (0 < a)) else Fin (a / b))"
| "fval_div (Fin a) (Inf s) = Fin 0"
| "fval_div (Inf s) (Fin b) = Inf (s = (0 \<le> b))"
| "fval_div (Inf s) (Inf t) = NaN"
| "fval_div NaN b = NaN"
| "fval_div a NaN = NaN"

definition exact_mean :: "int list \<Rightarrow> fval" where
  "exact_mean vs =
     (if vs = [] then NaN else Fin (sum_list (map real_of_int vs) / real (length vs)))"

definition exact_std :: "int list \<Rightarrow> fval" where
  "exact_std vs =
     (if vs = [] then NaN
      else (let m = sum_list (map real_of_int vs) / real (length vs)
            in Fin (sqrt (sum_list (map (\<lambda>v. (real_of_int v - m)\<^sup>2) vs) / real (length vs)))))"

definition exact_ops :: "(int, fval) float_ops" where
  "exact_ops =
     \<lparr>fmean = exact_mean, fstd = exact_std, astype = (\<lambda>v. Fin (real_of_int v)),
      fsub = fval_sub, fdiv = fval_div, isnan = (\<lambda>v. v = NaN)\<rparr>"

section \<open>Properties\<close>

subsection \<open>Work assignment\<close>

lemma round_robin_mset_sum:
  "0 < sz \<Longrightarrow> (\<Sum>r<sz. mset (round_robin ap sz r i fs)) = image_mset ap (mset fs)"
proof (induction fs arbitrary: i)
  case Nil
  then show ?case by simp
next
  case (Cons f fs)
  have lt: "i mod sz < sz" using Cons.prems by simp
  have "(\<Sum>r<sz. mset (round_robin ap sz r i (f # fs)))
        = (\<Sum>r<sz. (if i mod sz = r then {#ap f#} else {#}) + mset (round_robin ap sz r (Suc i) fs))"
    by (rule sum.cong) auto
  also have "\<dots> = (\<Sum>r<sz. (if i mod sz = r then {#ap f#} else {#})) + (\<Sum>r<sz. mset (round_robin ap sz r (Suc i) fs))"
    by (simp add: sum.distrib)
  also have "(\<Sum>r<sz. (if i mod sz = r then {#ap f#} else {#})) = {#ap f#}"
    using lt by (simp add: sum.delta)
  finally show ?case using Cons.IH[OF Cons.prems] by simp
qed

lemma round_robin_nths:
  "round_robin ap sz r i fs = map ap (nths fs {k. (i + k) mod sz = r})"
proof (induction fs arbitrary: i)
  case Nil
  then show ?case by simp
next
  case (Cons f fs)
  have "{j. Suc j \<in> {k. (i + k) mod sz = r}} = {k. (Suc i + k) mod sz = r}" by simp
  then show ?case using Cons.IH[of "Suc i"] by (simp add: nths_Cons)
qed

lemma round_robin_empty:
  "rank < sz \<Longrightarrow> i + length fs \<le> rank \<Longrightarrow> round_robin ap sz rank i fs = []"
  by (induction fs arbitrary: i) auto

lemma nths_disjoint:
  assumes "distinct xs" "A \<inter> B = {}"
  shows "set (nths xs A) \<inter> set (nths xs B) = {}"
proof -
  { fix v assume "v \<in> set (nths xs A)" "v \<in> set (nths xs B)"
    then obtain i j where "i < length xs" "i \<in> A" "v = xs ! i" "j < length xs" "j \<in> B" "v = xs ! j"
      by (auto simp: set_nths)
    with assms have False by (auto simp: nth_eq_iff_index_eq) }
  then show ?thesis by blast
qed

text \<open>
  Claim C2. For every worker count \<open>sz > 0\<close> and every list of files matched by the glob, the
  subsets that the ranks \<open>0, ..., sz - 1\<close> keep add up to the list of files, each file
  counted exactly once; rank \<open>r\<close> keeps exactly the files at the indices \<open>i\<close> of the sorted
  list with \<open>i mod sz = r\<close>, in index order; and the subsets of two different ranks are
  disjoint (for a list of distinct files, on which \<open>abspath\<close> is injective). The assignment
  is a function of the list, \<open>sz\<close> and the rank only.
\<close>

theorem assign_files_partition:
  "0 < sz \<Longrightarrow>
     (\<Sum>r<sz. mset (assign_files abspath sz r matched)) = image_mset abspath (mset matched)
   \<and> (\<forall>r<sz. assign_files abspath sz r matched
               = map abspath (nths (sort matched) {i. i mod sz = r}))
   \<and> (distinct matched \<and> inj_on abspath (set matched) \<longrightarrow>
        (\<forall>r<sz. \<forall>r'<sz. r \<noteq> r' \<longrightarrow>
           set (assign_files abspath sz r matched) \<inter> set (assign_files abspath sz r' matched) = {}))"
proof -
  assume sz: "0 < sz"
  have union: "(\<Sum>r<sz. mset (assign_files abspath sz r matched)) = image_mset abspath (mset matched)"
    using round_robin_mset_sum[OF sz, of abspath 0 "sort matched"] by (simp add: assign_files_def)
  have idx: "assign_files abspath sz r matched = map abspath (nths (sort matched) {i. i mod sz = r})"
    for r :: nat
    by (simp add: assign_files_def round_robin_nths)
  have disj: "set (assign_files abspath sz r matched) \<inter> set (assign_files abspath sz r' matched) = {}"
    if h: "distinct matched \<and> inj_on abspath (set matched)" and ne: "r \<noteq> r'" for r r' :: nat
  proof -
    let ?A = "{i. i mod sz = r}" and ?B = "{i. i mod sz = r'}"
    have d: "set (nths (sort matched) ?A) \<inter> set (nths (sort matched) ?B) = {}"
      using h ne by (intro nths_disjoint) auto
    have sub: "set (nths (sort matched) ?A) \<subseteq> set matched"
              "set (nths (sort matched) ?B) \<subseteq> set matched"
      using set_nths_subset[of "sort matched"] by auto
    have "abspath ` set (nths (sort matched) ?A) \<inter> abspath ` set (nths (sort matched) ?B) = {}"
    proof (rule ccontr)
      assume "\<not> ?thesis"
      then obtain u v where uv: "u \<in> set (nths (sort matched) ?A)" "v \<in> set (nths (sort matched) ?B)"
        "abspath u = abspath v" by auto
      with h sub have "u = v" by (auto simp: inj_on_def)
      with uv d show False by auto
    qed
    then show ?thesis by (simp add: idx)
  qed
  from union idx disj show ?thesis by blast
qed

theorem assign_files_partition_witness:
  "(0::nat) < 2
   \<and> distinct [''b.tif'', ''a.tif'', ''c.tif'']
   \<and> inj_on (\<lambda>f. ''/d/'' @ f) (set [''b.tif'', ''a.tif'', ''c.tif''])
   \<and> assign_files (\<lambda>f. ''/d/'' @ f) 2 0 [''b.tif'', ''a.tif'', ''c.tif''] = [''/d/a.tif'', ''/d/c.tif'']
   \<and> assign_files (\<lambda>f. ''/d/'' @ f) 2 1 [''b.tif'', ''a.tif'', ''c.tif''] = [''/d/b.tif'']
   \<and> (\<Sum>r<2. mset (assign_files (\<lambda>f. ''/d/'' @ f) 2 r [''b.tif'', ''a.tif'', ''c.tif'']))
       = image_mset (\<lambda>f. ''/d/'' @ f) (mset [''b.tif'', ''a.tif'', ''c.tif''])
   \<and> set (assign_files (\<lambda>f. ''/d/'' @ f) 2 0 [''b.tif'', ''a.tif'', ''c.tif''])
       \<inter> set (assign_files (\<lambda>f. ''/d/'' @ f) 2 1 [''b.tif'', ''a.tif'', ''c.tif'']) = {}"
proof -
  let ?ap = "\<lambda>f. ''/d/'' @ f" and ?m = "[''b.tif'', ''a.tif'', ''c.tif'']"
  have pos: "(0::nat) < 2" by simp
  have e0: "assign_files ?ap 2 0 ?m = [''/d/a.tif'', ''/d/c.tif'']"
    by (simp add: assign_files_def)
  have e1: "assign_files ?ap 2 1 ?m = [''/d/b.tif'']"
    by (simp add: assign_files_def)
  have dm: "distinct ?m \<and> inj_on ?ap (set ?m)"
    by (simp add: inj_on_def)
  note T = assign_files_partition[OF pos, of ?ap ?m]
  from T have S: "(\<Sum>r<2. mset (assign_files ?ap 2 r ?m)) = image_mset ?ap (mset ?m)"
    by blast
  have "(0::nat) < 2 \<and> (1::nat) < 2 \<and> (0::nat) \<noteq> 1" by simp
  with T dm have D: "set (assign_files ?ap 2 0 ?m) \<inter> set (assign_files ?ap 2 1 ?m) = {}"
    by blast
  from pos dm e0 e1 S D show ?thesis by blast
qed

text \<open>
  Claim C9. A worker whose round-robin subset is empty raises \<open>ValueError\<close> at startup; this
  is the case of every rank \<open>r\<close> with \<open>length matched \<le> r < sz\<close>, also when the glob matched
  files.
\<close>

theorem empty_subset_aborts:
  "0 < sz \<Longrightarrow>
     (assign_files abspath sz rank matched = [] \<longrightarrow>
        main_fnames abspath sz rank matched = Inl ValueError)
   \<and> (rank < sz \<and> length matched \<le> rank \<longrightarrow>
        assign_files abspath sz rank matched = []
        \<and> main_fnames abspath sz rank matched = Inl ValueError)"
  using round_robin_empty[of rank sz 0 "sort matched" abspath]
  by (auto simp: main_fnames_def assign_files_def)

theorem empty_subset_aborts_witness:
  "(0::nat) < 3 \<and> (2::nat) < 3 \<and> length [''b.tif'', ''a.tif''] \<le> 2 \<and> [''b.tif'', ''a.tif''] \<noteq> []
   \<and> assign_files (\<lambda>f. ''/d/'' @ f) 3 2 [''b.tif'', ''a.tif''] = []
   \<and> main_fnames (\<lambda>f. ''/d/'' @ f) 3 2 [''b.tif'', ''a.tif''] = Inl ValueError
   \<and> main_fnames (\<lambda>f. ''/d/'' @ f) 3 1 [''b.tif'', ''a.tif''] = Inr [''/d/b.tif'']"
proof -
  have "main_fnames (\<lambda>f. ''/d/'' @ f) 3 1 [''b.tif'', ''a.tif''] = Inr [''/d/b.tif'']"
    by (simp add: main_fnames_def assign_files_def)
  then show ?thesis
    using empty_subset_aborts[of 3 "\<lambda>f. ''/d/'' @ f" 2 "[''b.tif'', ''a.tif'']"] by simp
qed

text \<open>
  Claim C10. On an empty stream of patches \<open>write_patches\<close> opens no writer: no shard file
  is created, whatever \<open>patches_per_record\<close> is.
\<close>

theorem empty_stream_no_shard:
  "write_patches rank [] out_dir patches_per_record = Inr []"
  by (simp add: write_patches_def)

subsection \<open>Reading swaths\<close>

lemma swath_loop_all_read:
  "(\<forall>t\<in>set fnames. \<forall>sw. read t = Inr sw \<longrightarrow>
      (case resize of None \<Rightarrow> True | Some r \<Rightarrow> \<exists>sw'. cv2_resize r sw = Inr sw')) \<Longrightarrow>
   swath_loop read cv2_resize resize fnames
     = (readable_swaths read cv2_resize resize fnames, None, filter (\<lambda>t. isl (read t)) fnames)"
proof (induction fnames)
  case Nil
  then show ?case by (simp add: readable_swaths_def map_filter_simps)
next
  case (Cons t ts)
  then have IH: "swath_loop read cv2_resize resize ts
     = (readable_swaths read cv2_resize resize ts, None, filter (\<lambda>t. isl (read t)) ts)"
    by simp
  show ?case
  proof (cases "read t")
    case (Inl e)
    then show ?thesis using IH by (simp add: readable_swaths_def map_filter_simps)
  next
    case (Inr sw)
    with Cons.prems have ok: "case resize of None \<Rightarrow> True | Some r \<Rightarrow> \<exists>sw'. cv2_resize r sw = Inr sw'"
      by simp
    show ?thesis
    proof (cases resize)
      case None
      then show ?thesis using Inr IH by (simp add: readable_swaths_def map_filter_simps)
    next
      case (Some r)
      with ok obtain sw' where "cv2_resize r sw = Inr sw'" by auto
      then show ?thesis using Inr Some IH by (simp add: readable_swaths_def map_filter_simps)
    qed
  qed
qed

lemma swath_loop_skip:
  "read t = Inl e \<Longrightarrow>
   fst (swath_loop read cv2_resize resize (pre @ t # post))
     = fst (swath_loop read cv2_resize resize (pre @ post))
   \<and> fst (snd (swath_loop read cv2_resize resize (pre @ t # post)))
     = fst (snd (swath_loop read cv2_resize resize (pre @ post)))"
  by (induction pre) (auto split: sum.splits option.splits prod.splits)

text \<open>
  Claim C7. With a valid reader mode, a file whose read fails is logged and skipped and
  the loop goes on with the next file: when no resize fails, \<open>gen_swaths\<close> ends without an
  exception, yields the swaths of exactly the files that could be read, in the order of
  the assignment, and logs exactly the files that could not. In every case, a file whose
  read fails changes neither what is yielded nor how the generator ends.
\<close>

theorem read_failure_skips_file:
  "select_reader read_tif read_hdf mode = Inr read \<Longrightarrow>
     ((\<forall>t\<in>set fnames. \<forall>sw. read t = Inr sw \<longrightarrow>
          (case resize of None \<Rightarrow> True | Some r \<Rightarrow> \<exists>sw'. cv2_resize r sw = Inr sw')) \<longrightarrow>
        gen_swaths read_tif read_hdf cv2_resize fnames mode resize
          = (readable_swaths read cv2_resize resize fnames, None,
             filter (\<lambda>t. isl (read t)) fnames))
   \<and> (\<forall>e. read t = Inl e \<longrightarrow>
        fst (gen_swaths read_tif read_hdf cv2_resize (pre @ t # post) mode resize)
          = fst (gen_swaths read_tif read_hdf cv2_resize (pre @ post) mode resize)
        \<and> fst (snd (gen_swaths read_tif read_hdf cv2_resize (pre @ t # post) mode resize))
          = fst (snd (gen_swaths read_tif read_hdf cv2_resize (pre @ post) mode resize)))"
  using swath_loop_all_read[where fnames = fnames and read = read and resize = resize
          and cv2_resize = cv2_resize]
        swath_loop_skip[where read = read and t = t and cv2_resize = cv2_resize
          and resize = resize and pre = pre and post = post]
  by (simp add: gen_swaths_def)

theorem read_failure_skips_file_witness:
  "select_reader (\<lambda>t. if t = ''bad.tif'' then Inl ''IOError'' else Inr \<lparr>dim_x = 1, dim_y = 1, dim_c = 1, elem = (\<lambda>i j c. 5::int)\<rparr>)
      (\<lambda>t. Inl ''unused'') ''mod09_tif''
     = Inr (\<lambda>t. if t = ''bad.tif'' then Inl ''IOError'' else Inr \<lparr>dim_x = 1, dim_y = 1, dim_c = 1, elem = (\<lambda>i j c. 5::int)\<rparr>)
   \<and> gen_swaths (\<lambda>t. if t = ''bad.tif'' then Inl ''IOError'' else Inr \<lparr>dim_x = 1, dim_y = 1, dim_c = 1, elem = (\<lambda>i j c. 5::int)\<rparr>)
        (\<lambda>t. Inl ''unused'') (\<lambda>(r::rat) sw. Inr sw) [''a.tif'', ''bad.tif'', ''c.tif''] ''mod09_tif'' None
      = ([(''a.tif'', \<lparr>dim_x = 1, dim_y = 1, dim_c = 1, elem = (\<lambda>i j c. 5::int)\<rparr>),
          (''c.tif'', \<lparr>dim_x = 1, dim_y = 1, dim_c = 1, elem = (\<lambda>i j c. 5::int)\<rparr>)], None, [''bad.tif''])"
proof -
  let ?sw = "\<lparr>dim_x = 1, dim_y = 1, dim_c = 1, elem = (\<lambda>i j c. 5::int)\<rparr>"
  let ?rd = "\<lambda>t. if t = ''bad.tif'' then (Inl ''IOError'' :: string + int ndarray3) else Inr ?sw"
  let ?hdf = "\<lambda>t::string. (Inl ''unused'' :: string + int ndarray3)"
  let ?rz = "\<lambda>(r::rat) (sw::int ndarray3). (Inr sw :: py_error + int ndarray3)"
  have sel: "select_reader ?rd ?hdf ''mod09_tif'' = Inr ?rd"
    by (simp add: select_reader_def)
  have ok: "\<forall>t\<in>set [''a.tif'', ''bad.tif'', ''c.tif'']. \<forall>sw. ?rd t = Inr sw \<longrightarrow>
              (case (None :: rat option) of None \<Rightarrow> True | Some r \<Rightarrow> \<exists>sw'. ?rz r sw = Inr sw')"
    by simp
  have rs: "readable_swaths ?rd ?rz None [''a.tif'', ''bad.tif'', ''c.tif'']
              = [(''a.tif'', ?sw), (''c.tif'', ?sw)]"
    by (simp add: readable_swaths_def map_filter_simps)
  have lg: "filter (\<lambda>t. isl (?rd t)) [''a.tif'', ''bad.tif'', ''c.tif''] = [''bad.tif'']"
    by simp
  from read_failure_skips_file[OF sel, where fnames = "[''a.tif'', ''bad.tif'', ''c.tif'']"
         and resize = None and cv2_resize = ?rz] ok
  have "gen_swaths ?rd ?hdf ?rz [''a.tif'', ''bad.tif'', ''c.tif''] ''mod09_tif'' None
          = (readable_swaths ?rd ?rz None [''a.tif'', ''bad.tif'', ''c.tif''], None,
             filter (\<lambda>t. isl (?rd t)) [''a.tif'', ''bad.tif'', ''c.tif''])"
    by blast
  with sel rs lg show ?thesis by simp
qed

end
